theory Spec2Isabelle
  imports Complex_Main
begin

section \<open>Police Parking 3D: the simulation core of PoliceParkingGame.tsx\<close>

text \<open>
  The embedding follows \<^verbatim>\<open>src/components/PoliceParkingGame.tsx\<close>. JavaScript numbers are
  read as exact reals: rounding, NaN, infinities and the sign of zero are outside the
  model. Counters that start at 0 and only ever grow by 1 are natural numbers.
  The three.js classes the component uses (\<^verbatim>\<open>Vector3\<close>, \<^verbatim>\<open>Box3\<close>) are library code; the few
  methods the component calls are written out below as the library documents them.
\<close>

subsection \<open>three.js vectors and boxes\<close>

record Vector3 =
  x :: real
  y :: real
  z :: real

record Box3 =
  min_v :: Vector3
  max_v :: Vector3

definition multiplyScalar :: "Vector3 \<Rightarrow> real \<Rightarrow> Vector3" where
  "multiplyScalar v s = \<lparr>x = x v * s, y = y v * s, z = z v * s\<rparr>"

definition sub :: "Vector3 \<Rightarrow> Vector3 \<Rightarrow> Vector3" where
  "sub a b = \<lparr>x = x a - x b, y = y a - y b, z = z a - z b\<rparr>"

definition add :: "Vector3 \<Rightarrow> Vector3 \<Rightarrow> Vector3" where
  "add a b = \<lparr>x = x a + x b, y = y a + y b, z = z a + z b\<rparr>"

definition addScaledVector :: "Vector3 \<Rightarrow> Vector3 \<Rightarrow> real \<Rightarrow> Vector3" where
  "addScaledVector p v s = \<lparr>x = x p + x v * s, y = y p + y v * s, z = z p + z v * s\<rparr>"

definition setY :: "Vector3 \<Rightarrow> real \<Rightarrow> Vector3" where
  "setY p h = p\<lparr>y := h\<rparr>"

text \<open>\<^verbatim>\<open>Box3.containsPoint\<close> and \<^verbatim>\<open>Box3.intersectsBox\<close>: both are inclusive of the faces.\<close>

definition containsPoint :: "Box3 \<Rightarrow> Vector3 \<Rightarrow> bool" where
  "containsPoint b p =
     (x (min_v b) \<le> x p \<and> x p \<le> x (max_v b) \<and>
      y (min_v b) \<le> y p \<and> y p \<le> y (max_v b) \<and>
      z (min_v b) \<le> z p \<and> z p \<le> z (max_v b))"

definition intersectsBox :: "Box3 \<Rightarrow> Box3 \<Rightarrow> bool" where
  "intersectsBox b c =
     (x (min_v b) \<le> x (max_v c) \<and> x (min_v c) \<le> x (max_v b) \<and>
      y (min_v b) \<le> y (max_v c) \<and> y (min_v c) \<le> y (max_v b) \<and>
      z (min_v b) \<le> z (max_v c) \<and> z (min_v c) \<le> z (max_v b))"

text \<open>
  \<^verbatim>\<open>new Vector3(0, 0, 1).applyAxisAngle(new Vector3(0, 1, 0), angle)\<close>: the unit vector
  along z turned about the vertical axis.
\<close>

definition forwardVector :: "real \<Rightarrow> Vector3" where
  "forwardVector angle = \<lparr>x = sin angle, y = 0, z = cos angle\<rparr>"

text \<open>
  \<^verbatim>\<open>Math.atan2(b, a)\<close> on reals: the angle in \<open>(-\<pi>, \<pi>]\<close> of the point \<open>(a, b)\<close>,
  and 0 at the origin.
\<close>

definition atan2 :: "real \<Rightarrow> real \<Rightarrow> real" where
  "atan2 b a =
     (if 0 < a then arctan (b / a)
      else if a < 0 \<and> 0 \<le> b then arctan (b / a) + pi
      else if a < 0 \<and> b < 0 then arctan (b / a) - pi
      else if 0 < b then pi / 2
      else if b < 0 then - (pi / 2)
      else 0)"

subsection \<open>Level catalog\<close>

text \<open>
  The optional \<^verbatim>\<open>height\<close> of an obstacle is an option; the fields \<^verbatim>\<open>id\<close> and \<^verbatim>\<open>size\<close> are
  named \<open>id_n\<close> and \<open>size_v\<close> here.
\<close>

record Obstacle =
  position :: Vector3
  size_v :: Vector3
  height :: "real option"

record Bounds =
  width :: real
  height :: real

record LevelDefinition =
  id_n :: nat
  name :: string
  start :: Vector3
  startRotation :: real
  goalPosition :: Vector3
  goalRotation :: real
  goalSize :: Vector3
  obstacles :: "Obstacle list"
  bounds :: Bounds

definition vec :: "real \<Rightarrow> real \<Rightarrow> real \<Rightarrow> Vector3" where
  "vec a b c = \<lparr>x = a, y = b, z = c\<rparr>"

definition obstacle :: "Vector3 \<Rightarrow> Vector3 \<Rightarrow> Obstacle" where
  "obstacle p s = \<lparr>position = p, size_v = s, height = None\<rparr>"

definition level1 :: LevelDefinition where
  "level1 =
     \<lparr>id_n = 1, name = ''Training Grounds'',
      start = vec (-12) 0 14, startRotation = pi,
      goalPosition = vec 12 0 (-10), goalRotation = 0,
      goalSize = vec 6 0 12,
      obstacles =
        [obstacle (vec 0 0 0) (vec 4 2 16),
         obstacle (vec 8 0 8) (vec 4 2 4),
         obstacle (vec (-8) 0 (-6)) (vec 4 2 6)],
      bounds = \<lparr>width = 40, height = 30\<rparr>\<rparr>"

definition level2 :: LevelDefinition where
  "level2 =
     \<lparr>id_n = 2, name = ''Downtown Alley'',
      start = vec (-16) 0 12, startRotation = pi / 2,
      goalPosition = vec 16 0 (-12), goalRotation = - pi / 2,
      goalSize = vec 5 0 10,
      obstacles =
        [obstacle (vec (-6) 0 6) (vec 3 3 6),
         obstacle (vec 2 0 0) (vec 3 3 14),
         obstacle (vec 10 0 (-8)) (vec 3 3 6),
         obstacle (vec 0 0 (-12)) (vec 20 3 2)],
      bounds = \<lparr>width = 48, height = 36\<rparr>\<rparr>"

definition level3 :: LevelDefinition where
  "level3 =
     \<lparr>id_n = 3, name = ''Rooftop Pursuit'',
      start = vec 18 0 14, startRotation = pi,
      goalPosition = vec (-18) 0 (-14), goalRotation = - pi,
      goalSize = vec (11 / 2) 0 11,
      obstacles =
        [obstacle (vec 0 0 0) (vec 6 5 6),
         obstacle (vec (-10) 0 (-6)) (vec 4 4 10),
         obstacle (vec 10 0 6) (vec 5 4 8),
         obstacle (vec (-5) 0 12) (vec 3 4 4),
         obstacle (vec 12 0 (-10)) (vec 5 4 5)],
      bounds = \<lparr>width = 52, height = 40\<rparr>\<rparr>"

definition LEVELS :: "LevelDefinition list" where
  "LEVELS = [level1, level2, level3]"

subsection \<open>Collision geometry\<close>

definition computeBoundingBox :: "Vector3 \<Rightarrow> Vector3 \<Rightarrow> Box3" where
  "computeBoundingBox center sz =
     (let halfSize = multiplyScalar sz (1 / 2)
      in \<lparr>min_v = sub center halfSize, max_v = add center halfSize\<rparr>)"

definition carSize :: Vector3 where
  "carSize = vec (16 / 10) (12 / 10) 3"

definition boundsBox :: "LevelDefinition \<Rightarrow> Box3" where
  "boundsBox level =
     computeBoundingBox (vec 0 0 0)
       (vec (width (bounds level) - 1) 5 (Bounds.height (bounds level) - 1))"

definition obstacleHeight :: "Obstacle \<Rightarrow> real" where
  "obstacleHeight ob = (case Obstacle.height ob of None \<Rightarrow> 2 | Some h \<Rightarrow> h)"

definition obstacleBox :: "Obstacle \<Rightarrow> Box3" where
  "obstacleBox ob =
     computeBoundingBox
       (vec (x (Obstacle.position ob)) (obstacleHeight ob / 2) (z (Obstacle.position ob)))
       (vec (max (x (size_v ob) - 4 / 10) (1 / 2))
            (obstacleHeight ob)
            (max (z (size_v ob) - 4 / 10) (1 / 2)))"

definition obstacleBoxes :: "LevelDefinition \<Rightarrow> Box3 list" where
  "obstacleBoxes level = map obstacleBox (obstacles level)"

definition goalBox :: "LevelDefinition \<Rightarrow> Box3" where
  "goalBox level =
     computeBoundingBox
       (vec (x (goalPosition level)) (6 / 10) (z (goalPosition level)))
       (vec (x (goalSize level) - 4 / 10) (12 / 10) (z (goalSize level) - 4 / 10))"


subsection \<open>Keyboard intents and the state of the game loop\<close>

record KeyboardState =
  forward :: bool
  backward :: bool
  left :: bool
  right :: bool
  brake :: bool

text \<open>The scene-graph node of the car: only its position and its turn about the vertical axis.\<close>

record Group =
  position :: Vector3
  rotationY :: real

text \<open>
  The refs and the state of \<^verbatim>\<open>GameLoop\<close>. \<open>carRef\<close> is \<open>None\<close> until the car is mounted.
\<close>

record GameLoopState =
  carRef :: "Group option"
  velocity :: real
  goalPulse :: real
  timeRef :: real
  bumpsRef :: nat

definition resetCarState :: "LevelDefinition \<Rightarrow> GameLoopState \<Rightarrow> GameLoopState" where
  "resetCarState level s =
     s\<lparr>velocity := 0, timeRef := 0, bumpsRef := 0, goalPulse := 0,
       carRef :=
         (case carRef s of
            None \<Rightarrow> None
          | Some car \<Rightarrow>
              Some (car\<lparr>position := (start level)\<lparr>y := 4 / 10\<rparr>,
                        rotationY := startRotation level\<rparr>))\<rparr>"

subsection \<open>The tick: clock (lines 347 and 348)\<close>

definition advanceClock :: "real \<Rightarrow> GameLoopState \<Rightarrow> GameLoopState" where
  "advanceClock delta s = s\<lparr>goalPulse := goalPulse s + delta, timeRef := timeRef s + delta\<rparr>"

subsection \<open>The tick: velocity (lines 353 to 372)\<close>

definition accel :: "KeyboardState \<Rightarrow> real" where
  "accel k = (if forward k then 22 else if backward k then - 16 else 0)"

definition brakeForce :: "KeyboardState \<Rightarrow> real" where
  "brakeForce k = (if brake k then 35 else 0)"

definition maxSpeed :: "KeyboardState \<Rightarrow> real" where
  "maxSpeed k = (if backward k then 10 else 24)"

definition friction :: "KeyboardState \<Rightarrow> real" where
  "friction k = (if forward k \<or> backward k \<or> brake k then 5 else 8)"

definition applyAccel :: "KeyboardState \<Rightarrow> real \<Rightarrow> real \<Rightarrow> real" where
  "applyAccel k delta v = v + accel k * delta"

definition applyBrake :: "KeyboardState \<Rightarrow> real \<Rightarrow> real \<Rightarrow> real" where
  "applyBrake k delta v =
     (if brake k then
        (if \<bar>v\<bar> < brakeForce k * delta then 0
         else v - sgn v * brakeForce k * delta)
      else v)"

definition clampVelocity :: "KeyboardState \<Rightarrow> real \<Rightarrow> real" where
  "clampVelocity k v = max (min v (maxSpeed k)) (- 10)"

definition applyDamping :: "KeyboardState \<Rightarrow> real \<Rightarrow> real \<Rightarrow> real" where
  "applyDamping k delta v =
     (if \<not> forward k \<and> \<not> backward k then
        (let damping = min \<bar>v\<bar> (friction k * delta)
         in v - sgn v * damping)
      else v)"

text \<open>The velocity when the clamp has run, and when the damping has run.\<close>

definition clampedVelocity :: "KeyboardState \<Rightarrow> real \<Rightarrow> real \<Rightarrow> real" where
  "clampedVelocity k delta v = clampVelocity k (applyBrake k delta (applyAccel k delta v))"

definition dampedVelocity :: "KeyboardState \<Rightarrow> real \<Rightarrow> real \<Rightarrow> real" where
  "dampedVelocity k delta v = applyDamping k delta (clampedVelocity k delta v)"

subsection \<open>The tick: steering, translation, collisions (lines 374 to 399)\<close>

definition steerInput :: "KeyboardState \<Rightarrow> real" where
  "steerInput k = (if left k then 1 else 0) - (if right k then 1 else 0)"

definition steerIntensity :: "real \<Rightarrow> real" where
  "steerIntensity v = min (\<bar>v\<bar> / 10) 1"

definition turnAmount :: "KeyboardState \<Rightarrow> real \<Rightarrow> real \<Rightarrow> real" where
  "turnAmount k delta v = steerInput k * (17 / 10) * steerIntensity v * delta"

definition moveCar :: "KeyboardState \<Rightarrow> real \<Rightarrow> real \<Rightarrow> Group \<Rightarrow> Group" where
  "moveCar k delta v car =
     (let rot = rotationY car + turnAmount k delta v;
          forwardMove = forwardVector rot
      in car\<lparr>rotationY := rot,
             position := addScaledVector (position car) forwardMove (v * delta)\<rparr>)"

text \<open>The car, its velocity and the bump counter while the collisions are resolved.\<close>

record Moving =
  car :: Group
  vel :: real
  bumps :: nat

definition outOfBounds :: "LevelDefinition \<Rightarrow> Group \<Rightarrow> bool" where
  "outOfBounds level c = (\<not> containsPoint (boundsBox level) (setY (position c) 1))"

definition resolveBounds :: "LevelDefinition \<Rightarrow> Vector3 \<Rightarrow> Moving \<Rightarrow> Moving" where
  "resolveBounds level lastPosition m =
     (if outOfBounds level (car m) then
        m\<lparr>car := (car m)\<lparr>position := lastPosition\<rparr>,
          vel := vel m * (- (3 / 10)),
          bumps := bumps m + 1\<rparr>
      else m)"

definition carBox :: "Group \<Rightarrow> Box3" where
  "carBox c =
     computeBoundingBox (setY (position c) (6 / 10))
       (vec (x carSize) (y carSize) (z carSize * (7 / 10)))"

definition collided :: "LevelDefinition \<Rightarrow> Group \<Rightarrow> bool" where
  "collided level c = list_ex (\<lambda>box. intersectsBox box (carBox c)) (obstacleBoxes level)"

definition resolveObstacles :: "LevelDefinition \<Rightarrow> Vector3 \<Rightarrow> Moving \<Rightarrow> Moving" where
  "resolveObstacles level lastPosition m =
     (if collided level (car m) then
        m\<lparr>car := (car m)\<lparr>position := lastPosition\<rparr>,
          vel := vel m * (- (4 / 10)),
          bumps := bumps m + 1\<rparr>
      else m)"

text \<open>The car as translated, before any collision is resolved (line 381).\<close>

definition translated :: "KeyboardState \<Rightarrow> real \<Rightarrow> GameLoopState \<Rightarrow> Group \<Rightarrow> Moving" where
  "translated k delta s c =
     (let v = dampedVelocity k delta (velocity s)
      in \<lparr>car = moveCar k delta v c, vel = v, bumps = bumpsRef s\<rparr>)"

text \<open>The car when both collision checks have run (line 399).\<close>

definition afterCollisions ::
  "LevelDefinition \<Rightarrow> KeyboardState \<Rightarrow> real \<Rightarrow> GameLoopState \<Rightarrow> Group \<Rightarrow> Moving" where
  "afterCollisions level k delta s c =
     (let lastPosition = position c
      in resolveObstacles level lastPosition
           (resolveBounds level lastPosition (translated k delta s c)))"

subsection \<open>The tick: goal and over-speed checks (lines 401 to 413)\<close>

definition inGoal :: "LevelDefinition \<Rightarrow> Group \<Rightarrow> bool" where
  "inGoal level c = containsPoint (goalBox level) (setY (position c) (6 / 10))"

definition facingRequirement :: "LevelDefinition \<Rightarrow> Group \<Rightarrow> real" where
  "facingRequirement level c =
     \<bar>atan2 (sin (rotationY c - goalRotation level)) (cos (rotationY c - goalRotation level))\<bar>"

definition arrivedNow :: "LevelDefinition \<Rightarrow> Moving \<Rightarrow> bool" where
  "arrivedNow level m =
     (inGoal level (car m) \<and> \<bar>vel m\<bar> < 12 / 10 \<and> facingRequirement level (car m) < 3 / 10)"

definition overSpeed :: "real \<Rightarrow> bool" where
  "overSpeed v = (\<bar>v\<bar> > 35)"

text \<open>
  What one call of the frame callback leaves: the state of the loop, the arguments of
  \<^verbatim>\<open>onSuccess\<close> when it was called, and whether \<^verbatim>\<open>onCrash\<close> was called.
\<close>

record TickResult =
  state :: GameLoopState
  success :: "(real \<times> nat) option"
  crash :: bool

text \<open>The state when the goal check has run and the over-speed check has not (line 408).\<close>

definition beforeSpeedCheck ::
  "LevelDefinition \<Rightarrow> KeyboardState \<Rightarrow> real \<Rightarrow> GameLoopState \<Rightarrow> Group \<Rightarrow> GameLoopState" where
  "beforeSpeedCheck level k delta s c =
     (let m = afterCollisions level k delta s c
      in s\<lparr>carRef := Some (car m),
           velocity := (if arrivedNow level m then 0 else vel m),
           bumpsRef := bumps m\<rparr>)"

definition useFrame ::
  "LevelDefinition \<Rightarrow> KeyboardState \<Rightarrow> real \<Rightarrow> GameLoopState \<Rightarrow> TickResult" where
  "useFrame level k delta s =
     (let s1 = advanceClock delta s
      in case carRef s1 of
           None \<Rightarrow> \<lparr>state = s1, success = None, crash = False\<rparr>
         | Some c \<Rightarrow>
             (let m = afterCollisions level k delta s1 c;
                  s2 = beforeSpeedCheck level k delta s1 c
              in \<lparr>state = (if overSpeed (velocity s2) then resetCarState level s2 else s2),
                  success = (if arrivedNow level m then Some (timeRef s1, bumps m) else None),
                  crash = overSpeed (velocity s2)\<rparr>))"

subsection \<open>Game progression (lines 428 to 505 and the three buttons)\<close>

datatype GameState =
    Intro
  | Playing (levelIndex: nat) (startedAt: real)
  | Success (levelIndex: nat) (elapsed: real) (bumpCount: nat)
  | Complete (finalTime: real) (finalBumps: nat)

record Controller =
  gameState :: GameState
  resetSignal :: nat
  totalTime :: real
  totalBumps :: nat

definition startLevel :: "nat \<Rightarrow> real \<Rightarrow> Controller \<Rightarrow> Controller" where
  "startLevel i now c = c\<lparr>gameState := Playing i now, resetSignal := resetSignal c + 1\<rparr>"

definition handleSuccess :: "real \<Rightarrow> nat \<Rightarrow> Controller \<Rightarrow> Controller" where
  "handleSuccess elapsedSeconds b c =
     (case gameState c of
        Playing i t \<Rightarrow>
          (let nextTotalTime = totalTime c + elapsedSeconds;
               nextTotalBumps = totalBumps c + b
           in c\<lparr>totalTime := nextTotalTime, totalBumps := nextTotalBumps,
                gameState :=
                  (if i = length LEVELS - 1 then Complete nextTotalTime nextTotalBumps
                   else Success i elapsedSeconds b)\<rparr>)
      | _ \<Rightarrow> c)"

definition handleCrash :: "Controller \<Rightarrow> Controller" where
  "handleCrash c = c\<lparr>totalBumps := totalBumps c + 1\<rparr>"

definition isPlaying :: "GameState \<Rightarrow> bool" where
  "isPlaying g = (case g of Playing i t \<Rightarrow> True | _ \<Rightarrow> False)"

text \<open>The key handler; \<open>now\<close> is the reading of \<^verbatim>\<open>performance.now()\<close>.\<close>

definition handleKeyPress :: "string \<Rightarrow> real \<Rightarrow> Controller \<Rightarrow> Controller" where
  "handleKeyPress code now c =
     (let c1 =
            (if code = ''Enter'' \<or> code = ''Space'' then
               (case gameState c of
                  Intro \<Rightarrow> startLevel 0 now c
                | Success i e b \<Rightarrow> startLevel (i + 1) now c
                | Complete t b \<Rightarrow> c\<lparr>gameState := Intro, totalBumps := 0, totalTime := 0\<rparr>
                | Playing i t \<Rightarrow> c)
             else c)
      in if code = ''KeyR'' \<and> isPlaying (gameState c)
         then c1\<lparr>resetSignal := resetSignal c1 + 1\<rparr> else c1)"

text \<open>
  The three buttons of the banner. A button is rendered in one status only; in any other
  status there is nothing to click and the controller stays as it is.
\<close>

definition clickStartPatrol :: "real \<Rightarrow> Controller \<Rightarrow> Controller" where
  "clickStartPatrol now c = (case gameState c of Intro \<Rightarrow> startLevel 0 now c | _ \<Rightarrow> c)"

definition clickNextAssignment :: "real \<Rightarrow> Controller \<Rightarrow> Controller" where
  "clickNextAssignment now c =
     (case gameState c of Success i e b \<Rightarrow> startLevel (i + 1) now c | _ \<Rightarrow> c)"

definition clickRunItBack :: "Controller \<Rightarrow> Controller" where
  "clickRunItBack c =
     (case gameState c of Complete t b \<Rightarrow> c\<lparr>gameState := Intro\<rparr> | _ \<Rightarrow> c)"

text \<open>
  One frame of the whole component: the tick of the loop, with its callbacks delivered to
  the controller in the order the tick calls them. \<open>level\<close> is the \<^verbatim>\<open>level\<close> prop that
  \<^verbatim>\<open>GameLoop\<close> is rendered with. State updates are read as applied at once: a handler sees
  the controller as the handler before it left it.
\<close>

definition frame ::
  "LevelDefinition \<Rightarrow> KeyboardState \<Rightarrow> real \<Rightarrow> Controller \<times> GameLoopState \<Rightarrow>
     Controller \<times> GameLoopState" where
  "frame level k delta cs =
     (let r = useFrame level k delta (snd cs);
          c1 = (case success r of None \<Rightarrow> fst cs | Some (e, b) \<Rightarrow> handleSuccess e b (fst cs));
          c2 = (if crash r then handleCrash c1 else c1)
      in (c2, state r))"

text \<open>
  The body of the over-speed branch (lines 411 and 412) on the whole component:
  \<^verbatim>\<open>onCrash\<close> is delivered to the controller and \<^verbatim>\<open>resetCarState\<close> runs on the loop.
\<close>

definition crashBranch ::
  "LevelDefinition \<Rightarrow> Controller \<times> GameLoopState \<Rightarrow> Controller \<times> GameLoopState" where
  "crashBranch level cs = (handleCrash (fst cs), resetCarState level (snd cs))"

subsection \<open>Notions of the specification\<close>

text \<open>
  A velocity decaying toward zero by \<open>d\<close> without passing it: the words of the
  specification for the passive damping, to compare with \<open>applyDamping\<close>.
\<close>

definition decayTowardZero :: "real \<Rightarrow> real \<Rightarrow> real" where
  "decayTowardZero d v = (if 0 < v then max 0 (v - d) else if v < 0 then min 0 (v + d) else 0)"

text \<open>
  An angle \<open>a\<close> is the angle \<open>d\<close> normalised to \<open>(-\<pi>, \<pi>]\<close>: it lies in that interval and
  differs from \<open>d\<close> by whole turns.
\<close>

definition isNormalized :: "real \<Rightarrow> real \<Rightarrow> bool" where
  "isNormalized d a = (- pi < a \<and> a \<le> pi \<and> (\<exists>n::int. a = d + 2 * pi * of_int n))"

text \<open>The state of the loop that one tick leaves, for ticks applied one after the other.\<close>

definition tick :: "LevelDefinition \<Rightarrow> KeyboardState \<Rightarrow> real \<Rightarrow> GameLoopState \<Rightarrow> GameLoopState" where
  "tick level k delta s = state (useFrame level k delta s)"

definition noKeys :: KeyboardState where
  "noKeys = \<lparr>forward = False, backward = False, left = False, right = False, brake = False\<rparr>"

text \<open>
  The box of the car body of footprint \<open>carSize\<close> centred at a point: what
  \<^verbatim>\<open>computeBoundingBox(p, carSize)\<close> would give. The arena of a level is the rectangle of
  \<open>bounds\<close> centred at the origin, where \<^verbatim>\<open>ParkingLot\<close> puts the four walls.
\<close>

definition bodyInsideArena :: "LevelDefinition \<Rightarrow> Vector3 \<Rightarrow> bool" where
  "bodyInsideArena level p =
     (let b = computeBoundingBox p carSize
      in - (width (bounds level) / 2) \<le> x (min_v b) \<and> x (max_v b) \<le> width (bounds level) / 2 \<and>
         - (Bounds.height (bounds level) / 2) \<le> z (min_v b) \<and>
         z (max_v b) \<le> Bounds.height (bounds level) / 2)"

subsection \<open>States for the examples\<close>

text \<open>A mounted car at a position, with a heading and a velocity, and fresh counters.\<close>

definition carAt :: "Vector3 \<Rightarrow> real \<Rightarrow> real \<Rightarrow> GameLoopState" where
  "carAt p rot v =
     \<lparr>carRef = Some \<lparr>position = p, rotationY = rot\<rparr>,
      velocity = v, goalPulse = 0, timeRef = 0, bumpsRef = 0\<rparr>"

section \<open>The angle that \<open>atan2\<close> returns\<close>

lemma arctan_ratio:
  fixes s c :: real
  assumes "c \<noteq> 0" and "s\<^sup>2 + c\<^sup>2 = 1"
  shows "cos (arctan (s / c)) = \<bar>c\<bar>" and "sin (arctan (s / c)) = s / c * \<bar>c\<bar>"
proof -
  have "1 + (s / c)\<^sup>2 = (s\<^sup>2 + c\<^sup>2) / c\<^sup>2"
    using assms(1) by (simp add: power_divide add_divide_distrib)
  then have e: "1 + (s / c)\<^sup>2 = 1 / c\<^sup>2"
    using assms(2) by simp
  have r: "sqrt (1 + (s / c)\<^sup>2) = 1 / \<bar>c\<bar>"
    by (simp add: e real_sqrt_divide)
  show "cos (arctan (s / c)) = \<bar>c\<bar>"
    by (simp add: cos_arctan r)
  show "sin (arctan (s / c)) = s / c * \<bar>c\<bar>"
    by (simp add: sin_arctan r)
qed

lemma atan2_sin_cos:
  "- pi < atan2 (sin d) (cos d) \<and> atan2 (sin d) (cos d) \<le> pi \<and>
   sin (atan2 (sin d) (cos d)) = sin d \<and> cos (atan2 (sin d) (cos d)) = cos d"
proof -
  define t where "t = arctan (sin d / cos d)"
  have unit: "(sin d)\<^sup>2 + (cos d)\<^sup>2 = 1" by simp
  have lb: "- (pi / 2) < t" unfolding t_def by (rule arctan_lbound)
  have ub: "t < pi / 2" unfolding t_def by (rule arctan_ubound)
  have p: "0 < pi" by simp
  consider (pos) "0 < cos d" | (neg) "cos d < 0" | (zero) "cos d = 0" by linarith
  then show ?thesis
  proof cases
    case pos
    then have c: "cos d \<noteq> 0" by simp
    have a: "atan2 (sin d) (cos d) = t" using pos by (simp add: atan2_def t_def)
    have "sin t = sin d" "cos t = cos d"
      using pos arctan_ratio[OF c unit] by (simp_all add: t_def)
    moreover have "- pi < t" "t \<le> pi" using lb ub p by linarith+
    ultimately show ?thesis by (simp add: a)
  next
    case neg
    then have c: "cos d \<noteq> 0" by simp
    have sc: "sin t = - sin d" "cos t = - cos d"
      using neg arctan_ratio[OF c unit] by (simp_all add: t_def)
    show ?thesis
    proof (cases "0 \<le> sin d")
      case True
      have a: "atan2 (sin d) (cos d) = t + pi" using neg True by (simp add: atan2_def t_def)
      have "sin d / cos d \<le> 0" using neg True by (simp add: divide_nonneg_neg)
      then have "t \<le> 0" unfolding t_def by (simp add: arctan_le_zero_iff)
      then have "- pi < t + pi" "t + pi \<le> pi" using lb p by linarith+
      moreover have "sin (t + pi) = sin d" "cos (t + pi) = cos d" using sc by simp_all
      ultimately show ?thesis unfolding a by blast
    next
      case False
      have a: "atan2 (sin d) (cos d) = t - pi" using neg False by (simp add: atan2_def t_def)
      have "0 < sin d / cos d" using neg False by (simp add: divide_neg_neg)
      then have "0 < t" unfolding t_def by (simp add: zero_less_arctan_iff)
      then have "- pi < t - pi" "t - pi \<le> pi" using ub p by linarith+
      moreover have "sin (t - pi) = sin d" "cos (t - pi) = cos d"
        using sc by (simp_all add: sin_diff cos_diff)
      ultimately show ?thesis unfolding a by blast
    qed
  next
    case zero
    then have "(sin d)\<^sup>2 = 1" using unit by simp
    then have "sin d = 1 \<or> sin d = - 1" by (simp add: power2_eq_1_iff)
    then show ?thesis
    proof
      assume "sin d = 1"
      then show ?thesis using zero p by (simp add: atan2_def)
    next
      assume s: "sin d = - 1"
      have a: "atan2 (sin d) (cos d) = - (pi / 2)" using zero s by (simp add: atan2_def)
      have "- (pi / 2) \<le> pi" "- pi < - (pi / 2)" using p by linarith+
      moreover have "sin (- (pi / 2)) = sin d" "cos (- (pi / 2)) = cos d"
        using zero s by simp_all
      ultimately show ?thesis unfolding a by blast
    qed
  qed
qed

lemma atan2_normalises:
  "\<exists>n::int. atan2 (sin d) (cos d) = d + 2 * pi * of_int n"
  using atan2_sin_cos[of d] by (simp add: sin_cos_eq_iff)

section \<open>Collision geometry: the boundary volume\<close>

lemma computeBoundingBox_min:
  "min_v (computeBoundingBox c s) = \<lparr>x = x c - x s / 2, y = y c - y s / 2, z = z c - z s / 2\<rparr>"
  by (simp add: computeBoundingBox_def Let_def sub_def multiplyScalar_def)

lemma computeBoundingBox_max:
  "max_v (computeBoundingBox c s) = \<lparr>x = x c + x s / 2, y = y c + y s / 2, z = z c + z s / 2\<rparr>"
  by (simp add: computeBoundingBox_def Let_def add_def multiplyScalar_def)

lemmas box_simps = computeBoundingBox_min computeBoundingBox_max vec_def setY_def
  containsPoint_def intersectsBox_def

text \<open>
  Claim C3, as amended. The boundary volume of a level is the arena rectangle shrunk by a
  fixed half unit on each side, in width and in depth alike (and 2.5 up and down): a point
  is inside it exactly when its coordinates are within \<open>width / 2 - 1 / 2\<close> and
  \<open>height / 2 - 1 / 2\<close> of the centre. The margin does not depend on the footprint of the
  car.
\<close>

theorem C3_boundsBox_margin:
  "containsPoint (boundsBox level) p \<longleftrightarrow>
     \<bar>x p\<bar> \<le> width (bounds level) / 2 - 1 / 2 \<and>
     \<bar>y p\<bar> \<le> 5 / 2 \<and>
     \<bar>z p\<bar> \<le> Bounds.height (bounds level) / 2 - 1 / 2"
  by (auto simp: boundsBox_def box_simps field_simps abs_le_iff)

text \<open>
  Claim C3 as stated fails. In the first level (arena 40 by 30) the boundary volume reaches
  to 19.5 in width, not to 20 - 0.8 = 19.2, and the point (19.5, 1, 0) is inside it while a
  car body of footprint 1.6 by 3.0 centred there reaches 20.3, beyond the arena wall at 20.
\<close>

theorem C3_boundsBox_counterexample:
  "containsPoint (boundsBox level1) (vec (39 / 2) 1 0) \<and>
   \<not> bodyInsideArena level1 (vec (39 / 2) 1 0) \<and>
   x (max_v (boundsBox level1)) = 39 / 2 \<and>
   width (bounds level1) / 2 - x carSize / 2 = 96 / 5"
  by (simp add: boundsBox_def bodyInsideArena_def box_simps level1_def carSize_def Let_def)

section \<open>The velocity of a tick\<close>

lemma clampVelocity_bounds: "- 10 \<le> clampVelocity k v \<and> clampVelocity k v \<le> 24"
  by (auto simp: clampVelocity_def maxSpeed_def max_def min_def)

lemma clampVelocity_sign: "0 \<le> clampVelocity k v * v \<and> \<bar>clampVelocity k v\<bar> \<le> \<bar>v\<bar>"
  by (auto simp: clampVelocity_def maxSpeed_def max_def min_def zero_le_mult_iff)

lemma applyDamping_decay:
  assumes "0 \<le> delta" "\<not> forward k" "\<not> backward k"
  shows "applyDamping k delta v = decayTowardZero (friction k * delta) v"
proof -
  have "0 \<le> friction k * delta" using assms(1) by (simp add: friction_def)
  then show ?thesis
    using assms(2,3)
    by (auto simp: applyDamping_def decayTowardZero_def Let_def min_def max_def sgn_real_def)
qed

lemma applyDamping_held: "forward k \<or> backward k \<Longrightarrow> applyDamping k delta v = v"
  by (auto simp: applyDamping_def)

lemma applyDamping_sign:
  assumes "0 \<le> delta"
  shows "0 \<le> applyDamping k delta v * v \<and> \<bar>applyDamping k delta v\<bar> \<le> \<bar>v\<bar>"
proof -
  have "0 \<le> friction k * delta" using assms(1) by (simp add: friction_def)
  then show ?thesis
    by (auto simp: applyDamping_def Let_def min_def sgn_real_def zero_le_mult_iff)
qed

text \<open>
  Claim C1, as amended. In a tick with \<open>delta > 0\<close> the passive damping runs only when
  neither the forward nor the backward intent is held. Then it moves the clamped velocity
  toward zero by \<open>8 * delta\<close> when the brake is not held either, and by \<open>5 * delta\<close>
  when the brake is held. When the forward or the backward intent is held the damping does
  not run and the clamped velocity stays as it is. The damping never changes the sign of the
  velocity and never raises its magnitude.
\<close>

theorem C1_passive_damping:
  assumes "0 < delta"
  shows "(\<not> forward k \<and> \<not> backward k \<and> \<not> brake k \<longrightarrow>
            dampedVelocity k delta v = decayTowardZero (8 * delta) (clampedVelocity k delta v)) \<and>
         (\<not> forward k \<and> \<not> backward k \<and> brake k \<longrightarrow>
            dampedVelocity k delta v = decayTowardZero (5 * delta) (clampedVelocity k delta v)) \<and>
         (forward k \<or> backward k \<longrightarrow>
            dampedVelocity k delta v = clampedVelocity k delta v) \<and>
         0 \<le> dampedVelocity k delta v * clampedVelocity k delta v \<and>
         \<bar>dampedVelocity k delta v\<bar> \<le> \<bar>clampedVelocity k delta v\<bar>"
proof -
  have d: "0 \<le> delta" using assms by simp
  show ?thesis
    unfolding dampedVelocity_def
    using applyDamping_decay[OF d, of k "clampedVelocity k delta v"]
      applyDamping_held[of k delta "clampedVelocity k delta v"]
      applyDamping_sign[OF d, of k "clampedVelocity k delta v"]
    by (auto simp: friction_def)
qed

text \<open>
  Three ticks of a tenth of a second: no intent at velocity 20 (19.2 left), the brake alone
  at velocity 20 (16 left), the forward intent alone from rest (2.2, undamped).
\<close>

theorem C1_passive_damping_witness:
  "dampedVelocity noKeys (1 / 10) 20 = 96 / 5 \<and>
   dampedVelocity (noKeys\<lparr>brake := True\<rparr>) (1 / 10) 20 = 16 \<and>
   dampedVelocity (noKeys\<lparr>forward := True\<rparr>) (1 / 10) 0 = 11 / 5"
  using C1_passive_damping[of "1 / 10" noKeys 20]
    C1_passive_damping[of "1 / 10" "noKeys\<lparr>brake := True\<rparr>" 20]
    C1_passive_damping[of "1 / 10" "noKeys\<lparr>forward := True\<rparr>" 0]
  by (simp add: noKeys_def clampedVelocity_def clampVelocity_def applyBrake_def applyAccel_def
      accel_def brakeForce_def maxSpeed_def decayTowardZero_def)

text \<open>
  Claim C1 as stated fails where it says that a held throttle intent still leaves a decay
  of 5 units per second squared. With the forward intent alone, from rest and for a tenth
  of a second, the brake has zeroed nothing, the clamped velocity is 2.2, and the velocity
  after the damping step is still 2.2, not the 1.7 that a decay by 0.5 would give.
\<close>

theorem C1_throttle_counterexample:
  "forward (noKeys\<lparr>forward := True\<rparr>) \<and>
   applyBrake (noKeys\<lparr>forward := True\<rparr>) (1 / 10)
     (applyAccel (noKeys\<lparr>forward := True\<rparr>) (1 / 10) 0) = 11 / 5 \<and>
   clampedVelocity (noKeys\<lparr>forward := True\<rparr>) (1 / 10) 0 = 11 / 5 \<and>
   dampedVelocity (noKeys\<lparr>forward := True\<rparr>) (1 / 10) 0 = 11 / 5 \<and>
   decayTowardZero (5 * (1 / 10)) (11 / 5) = 17 / 10"
  by (simp add: noKeys_def dampedVelocity_def applyDamping_def clampedVelocity_def
      clampVelocity_def applyBrake_def applyAccel_def accel_def brakeForce_def maxSpeed_def
      decayTowardZero_def)

section \<open>One tick of the loop\<close>

lemma advanceClock_fields [simp]:
  "velocity (advanceClock delta s) = velocity s"
  "carRef (advanceClock delta s) = carRef s"
  "bumpsRef (advanceClock delta s) = bumpsRef s"
  "timeRef (advanceClock delta s) = timeRef s + delta"
  by (simp_all add: advanceClock_def)

lemma translated_fields [simp]:
  "vel (translated k delta s c) = dampedVelocity k delta (velocity s)"
  "bumps (translated k delta s c) = bumpsRef s"
  "car (translated k delta s c) = moveCar k delta (dampedVelocity k delta (velocity s)) c"
  by (simp_all add: translated_def Let_def)

lemma resolveBounds_vel: "\<bar>vel (resolveBounds level p m)\<bar> \<le> \<bar>vel m\<bar>"
  by (simp add: resolveBounds_def abs_mult)

lemma resolveObstacles_vel: "\<bar>vel (resolveObstacles level p m)\<bar> \<le> \<bar>vel m\<bar>"
  by (simp add: resolveObstacles_def abs_mult)

lemma afterCollisions_vel:
  "\<bar>vel (afterCollisions level k delta s c)\<bar> \<le> \<bar>dampedVelocity k delta (velocity s)\<bar>"
proof -
  let ?t = "translated k delta s c"
  have "\<bar>vel (afterCollisions level k delta s c)\<bar> \<le> \<bar>vel (resolveBounds level (position c) ?t)\<bar>"
    by (simp add: afterCollisions_def Let_def resolveObstacles_vel)
  also have "\<dots> \<le> \<bar>vel ?t\<bar>" by (rule resolveBounds_vel)
  finally show ?thesis by simp
qed

lemma beforeSpeedCheck_fields [simp]:
  "velocity (beforeSpeedCheck level k delta s c) =
     (if arrivedNow level (afterCollisions level k delta s c) then 0
      else vel (afterCollisions level k delta s c))"
  "carRef (beforeSpeedCheck level k delta s c) = Some (car (afterCollisions level k delta s c))"
  "bumpsRef (beforeSpeedCheck level k delta s c) = bumps (afterCollisions level k delta s c)"
  "timeRef (beforeSpeedCheck level k delta s c) = timeRef s"
  by (simp_all add: beforeSpeedCheck_def Let_def)

lemma beforeSpeedCheck_vel:
  "\<bar>velocity (beforeSpeedCheck level k delta s c)\<bar> \<le> \<bar>dampedVelocity k delta (velocity s)\<bar>"
  using afterCollisions_vel[of level k delta s c] by simp

lemma clampedVelocity_bounds:
  "- 10 \<le> clampedVelocity k delta v \<and> clampedVelocity k delta v \<le> 24"
  unfolding clampedVelocity_def by (rule clampVelocity_bounds)

lemma dampedVelocity_le_clamped:
  "0 \<le> delta \<Longrightarrow> \<bar>dampedVelocity k delta v\<bar> \<le> \<bar>clampedVelocity k delta v\<bar>"
  unfolding dampedVelocity_def using applyDamping_sign by blast

lemma dampedVelocity_le_24: "0 \<le> delta \<Longrightarrow> \<bar>dampedVelocity k delta v\<bar> \<le> 24"
  using dampedVelocity_le_clamped[of delta k v] clampedVelocity_bounds[of k delta v] by linarith

lemma useFrame_Some:
  "carRef s = Some c \<Longrightarrow>
   useFrame level k delta s =
     \<lparr>state =
        (if overSpeed (velocity (beforeSpeedCheck level k delta (advanceClock delta s) c))
         then resetCarState level (beforeSpeedCheck level k delta (advanceClock delta s) c)
         else beforeSpeedCheck level k delta (advanceClock delta s) c),
      success =
        (if arrivedNow level (afterCollisions level k delta (advanceClock delta s) c)
         then Some (timeRef s + delta, bumps (afterCollisions level k delta (advanceClock delta s) c))
         else None),
      crash = overSpeed (velocity (beforeSpeedCheck level k delta (advanceClock delta s) c))\<rparr>"
  by (simp add: useFrame_def Let_def)

lemma useFrame_None:
  "carRef s = None \<Longrightarrow>
   useFrame level k delta s = \<lparr>state = advanceClock delta s, success = None, crash = False\<rparr>"
  by (simp add: useFrame_def Let_def)

lemma no_crash: "0 \<le> delta \<Longrightarrow> \<not> crash (useFrame level k delta s)"
proof (cases "carRef s")
  case None
  then show ?thesis by (simp add: useFrame_None)
next
  case (Some c)
  assume d: "0 \<le> delta"
  have "\<bar>velocity (beforeSpeedCheck level k delta (advanceClock delta s) c)\<bar> \<le> 24"
    using beforeSpeedCheck_vel[of level k delta "advanceClock delta s" c]
      dampedVelocity_le_24[OF d, of k "velocity s"] by simp
  then show ?thesis using Some by (simp add: useFrame_Some overSpeed_def)
qed

section \<open>Ticks on the first level\<close>

lemmas velocity_defs = dampedVelocity_def clampedVelocity_def applyDamping_def clampVelocity_def
  applyBrake_def applyAccel_def accel_def brakeForce_def maxSpeed_def friction_def

lemmas motion_defs = afterCollisions_def translated_def resolveObstacles_def resolveBounds_def
  outOfBounds_def collided_def carBox_def moveCar_def turnAmount_def steerInput_def
  steerIntensity_def forwardVector_def addScaledVector_def

lemmas geometry_defs = obstacleBoxes_def obstacleBox_def obstacleHeight_def obstacle_def
  goalBox_def boundsBox_def carSize_def computeBoundingBox_def multiplyScalar_def sub_def add_def
  vec_def setY_def containsPoint_def intersectsBox_def

lemma carAt_fields [simp]:
  "carRef (carAt p rot v) = Some \<lparr>position = p, rotationY = rot\<rparr>"
  "velocity (carAt p rot v) = v"
  "bumpsRef (carAt p rot v) = 0"
  "timeRef (carAt p rot v) = 0"
  by (simp_all add: carAt_def)

text \<open>Level 1, from the start pose, no intent, a tenth of a second.\<close>

lemma level1_free_run:
  assumes "velocity s = 20"
  shows "afterCollisions level1 noKeys (1 / 10) s \<lparr>position = vec (- 12) (2 / 5) 14, rotationY = pi\<rparr> =
         \<lparr>car = \<lparr>position = vec (- 12) (2 / 5) (302 / 25), rotationY = pi\<rparr>,
          vel = 96 / 5, bumps = bumpsRef s\<rparr>"
  using assms
  by (simp add: noKeys_def level1_def velocity_defs motion_defs geometry_defs Let_def)

lemma level1_reverse_into_wall:
  assumes "velocity s = - 10"
  shows "afterCollisions level1 noKeys (1 / 10) s \<lparr>position = vec (- 12) (2 / 5) 14, rotationY = pi\<rparr> =
         \<lparr>car = \<lparr>position = vec (- 12) (2 / 5) 14, rotationY = pi\<rparr>,
          vel = 69 / 25, bumps = bumpsRef s + 1\<rparr>"
  using assms
  by (simp add: noKeys_def level1_def velocity_defs motion_defs geometry_defs Let_def)

lemma level1_start_not_inGoal:
  "\<not> inGoal level1 \<lparr>position = vec (- 12) (2 / 5) zz, rotationY = r\<rparr>"
  by (simp add: inGoal_def level1_def geometry_defs)

section \<open>The over-speed check is never reached with a forward clock\<close>

text \<open>
  Claim C9. For every state of the loop, every keyboard state and every \<open>delta \<ge> 0\<close>
  the tick does not call \<^verbatim>\<open>onCrash\<close>. The clamp leaves the velocity between -10 and 24;
  the damping, the two restitutions and the zeroing on arrival never raise its magnitude;
  so the velocity that reaches the over-speed check is at most 24 in magnitude.
\<close>

theorem C9_never_crashed:
  assumes "0 \<le> delta"
  shows "\<not> crash (useFrame level k delta s) \<and>
         - 10 \<le> clampedVelocity k delta (velocity s) \<and>
         clampedVelocity k delta (velocity s) \<le> 24 \<and>
         \<bar>dampedVelocity k delta (velocity s)\<bar> \<le> \<bar>clampedVelocity k delta (velocity s)\<bar> \<and>
         (\<forall>c. carRef s = Some c \<longrightarrow>
            \<bar>vel (afterCollisions level k delta (advanceClock delta s) c)\<bar>
              \<le> \<bar>dampedVelocity k delta (velocity s)\<bar> \<and>
            \<bar>velocity (beforeSpeedCheck level k delta (advanceClock delta s) c)\<bar>
              \<le> \<bar>vel (afterCollisions level k delta (advanceClock delta s) c)\<bar> \<and>
            \<bar>velocity (beforeSpeedCheck level k delta (advanceClock delta s) c)\<bar> \<le> 24)"
proof -
  have "\<bar>velocity (beforeSpeedCheck level k delta (advanceClock delta s) c)\<bar> \<le> 24" for c
    using beforeSpeedCheck_vel[of level k delta "advanceClock delta s" c]
      dampedVelocity_le_24[OF assms, of k "velocity s"] by simp
  moreover have "\<bar>vel (afterCollisions level k delta (advanceClock delta s) c)\<bar>
              \<le> \<bar>dampedVelocity k delta (velocity s)\<bar>" for c
    using afterCollisions_vel[of level k delta "advanceClock delta s" c] by simp
  moreover have "\<bar>velocity (beforeSpeedCheck level k delta (advanceClock delta s) c)\<bar>
              \<le> \<bar>vel (afterCollisions level k delta (advanceClock delta s) c)\<bar>" for c
    by simp
  ultimately show ?thesis
    using no_crash[OF assms, of level k s] clampedVelocity_bounds[of k delta "velocity s"]
      dampedVelocity_le_clamped[OF assms, of k "velocity s"]
    by blast
qed

text \<open>A tick of level 1 from the start pose at velocity 20, a tenth of a second long.\<close>

theorem C9_never_crashed_witness:
  "\<not> crash (useFrame level1 noKeys (1 / 10) (carAt (vec (- 12) (2 / 5) 14) pi 20)) \<and>
   \<bar>velocity (beforeSpeedCheck level1 noKeys (1 / 10)
       (advanceClock (1 / 10) (carAt (vec (- 12) (2 / 5) 14) pi 20))
       \<lparr>position = vec (- 12) (2 / 5) 14, rotationY = pi\<rparr>)\<bar> \<le> 24"
  using C9_never_crashed[where delta = "1 / 10" and level = level1 and k = noKeys
      and s = "carAt (vec (- 12) (2 / 5) 14) pi 20"]
  by simp

section \<open>Repeated ticks with no intent held\<close>

lemma tick_None: "carRef s = None \<Longrightarrow> tick level k delta s = advanceClock delta s"
  by (simp add: tick_def useFrame_None)

lemma tick_Some:
  assumes "carRef s = Some c" "0 \<le> delta"
  shows "tick level k delta s = beforeSpeedCheck level k delta (advanceClock delta s) c"
proof -
  have "\<not> crash (useFrame level k delta s)" using assms(2) by (rule no_crash)
  then show ?thesis using assms(1) by (simp add: tick_def useFrame_Some)
qed

lemma noKeys_clamped: "clampedVelocity noKeys delta v = clampVelocity noKeys v"
  by (simp add: clampedVelocity_def applyBrake_def applyAccel_def accel_def noKeys_def)

lemma noKeys_damped_decay:
  assumes "0 \<le> delta"
  shows "\<bar>dampedVelocity noKeys delta v\<bar> \<le> max 0 (\<bar>v\<bar> - 8 * delta)"
proof -
  have f: "friction noKeys = 8" by (simp add: friction_def noKeys_def)
  have nk: "\<not> forward noKeys" "\<not> backward noKeys" by (simp_all add: noKeys_def)
  have "dampedVelocity noKeys delta v = decayTowardZero (8 * delta) (clampVelocity noKeys v)"
    using applyDamping_decay[OF assms nk, of "clampVelocity noKeys v"]
    by (simp add: dampedVelocity_def noKeys_clamped f)
  moreover have "\<bar>decayTowardZero (8 * delta) (clampVelocity noKeys v)\<bar>
      \<le> max 0 (\<bar>clampVelocity noKeys v\<bar> - 8 * delta)"
    using assms by (auto simp: decayTowardZero_def max_def min_def)
  moreover have "\<bar>clampVelocity noKeys v\<bar> \<le> \<bar>v\<bar>" using clampVelocity_sign by blast
  ultimately show ?thesis by linarith
qed

lemma noKeys_damped_sign:
  assumes "0 \<le> delta"
  shows "0 \<le> dampedVelocity noKeys delta v * v"
proof -
  let ?c = "clampVelocity noKeys v"
  have a: "0 \<le> applyDamping noKeys delta ?c * ?c" using applyDamping_sign[OF assms] by blast
  have b: "0 \<le> ?c * v" using clampVelocity_sign by blast
  have c: "?c = 0 \<Longrightarrow> applyDamping noKeys delta ?c = 0"
    using applyDamping_sign[OF assms, of noKeys ?c] by simp
  show ?thesis
    unfolding dampedVelocity_def noKeys_clamped
    using a b c by (auto simp: zero_le_mult_iff)
qed

lemma tick_noKeys_decay:
  assumes "0 \<le> delta" "carRef s \<noteq> None"
  shows "\<bar>velocity (tick level noKeys delta s)\<bar> \<le> max 0 (\<bar>velocity s\<bar> - 8 * delta)"
proof -
  obtain c where c: "carRef s = Some c" using assms(2) by auto
  have "\<bar>velocity (tick level noKeys delta s)\<bar> \<le> \<bar>dampedVelocity noKeys delta (velocity s)\<bar>"
    using beforeSpeedCheck_vel[of level noKeys delta "advanceClock delta s" c]
    by (simp only: tick_Some[OF c assms(1)] advanceClock_fields)
  then show ?thesis using noKeys_damped_decay[OF assms(1), of "velocity s"] by linarith
qed

lemma tick_noKeys_le:
  assumes "0 \<le> delta"
  shows "\<bar>velocity (tick level noKeys delta s)\<bar> \<le> \<bar>velocity s\<bar>"
proof (cases "carRef s")
  case None
  then show ?thesis by (simp add: tick_None)
next
  case (Some c)
  then have "carRef s \<noteq> None" by simp
  from tick_noKeys_decay[OF assms this, of level] assms show ?thesis by (simp add: max_def split: if_splits)
qed

lemma tick_carRef: "(carRef (tick level k delta s) = None) = (carRef s = None)"
proof (cases "carRef s")
  case None
  then show ?thesis by (simp add: tick_None)
next
  case (Some c)
  then show ?thesis by (simp add: tick_def useFrame_Some resetCarState_def)
qed

lemma afterCollisions_unbumped:
  assumes "bumps (afterCollisions level k delta s c) = bumpsRef s"
  shows "vel (afterCollisions level k delta s c) = dampedVelocity k delta (velocity s)"
  using assms
  by (auto simp: afterCollisions_def Let_def resolveObstacles_def resolveBounds_def
      split: if_splits)

lemma tick_noKeys_sign:
  assumes "0 \<le> delta" "bumpsRef (tick level noKeys delta s) = bumpsRef s"
  shows "0 \<le> velocity (tick level noKeys delta s) * velocity s"
proof (cases "carRef s")
  case None
  then show ?thesis by (simp add: tick_None)
next
  case (Some c)
  have t: "tick level noKeys delta s = beforeSpeedCheck level noKeys delta (advanceClock delta s) c"
    by (rule tick_Some[OF Some assms(1)])
  have "bumps (afterCollisions level noKeys delta (advanceClock delta s) c)
          = bumpsRef (advanceClock delta s)"
    using assms(2) unfolding t by simp
  then have "vel (afterCollisions level noKeys delta (advanceClock delta s) c)
          = dampedVelocity noKeys delta (velocity s)"
    using afterCollisions_unbumped[of level noKeys delta "advanceClock delta s" c] by simp
  then show ?thesis
    unfolding t using noKeys_damped_sign[OF assms(1), of "velocity s"] by simp
qed

lemma funpow_tick_carRef:
  "carRef s \<noteq> None \<Longrightarrow> carRef ((tick level k delta ^^ n) s) \<noteq> None"
  by (induction n) (simp_all add: tick_carRef)

lemma funpow_tick_decay:
  assumes "0 \<le> delta" "carRef s \<noteq> None"
  shows "\<bar>velocity ((tick level noKeys delta ^^ n) s)\<bar> \<le> max 0 (\<bar>velocity s\<bar> - 8 * delta * real n)"
proof (induction n)
  case 0
  then show ?case by simp
next
  case (Suc n)
  let ?s = "(tick level noKeys delta ^^ n) s"
  have "\<bar>velocity (tick level noKeys delta ?s)\<bar> \<le> max 0 (\<bar>velocity ?s\<bar> - 8 * delta)"
    using tick_noKeys_decay[OF assms(1) funpow_tick_carRef[OF assms(2)]] .
  also have "\<dots> \<le> max 0 (max 0 (\<bar>velocity s\<bar> - 8 * delta * real n) - 8 * delta)"
    using Suc.IH by (simp add: max_def)
  also have "\<dots> = max 0 (\<bar>velocity s\<bar> - 8 * delta * real (Suc n))"
    using assms(1) by (simp add: max_def algebra_simps)
  finally show ?case by simp
qed

text \<open>
  Claim C6, as amended. With \<open>delta > 0\<close> and no intent held, from any state, each further
  tick leaves a velocity no larger in magnitude than before; with the car mounted the
  magnitude after \<open>n\<close> ticks is at most \<open>max 0 (\<bar>v\<bar> - 8 * delta * n)\<close>, so it comes to
  rest; and on every tick that counts no bump (neither the boundary nor an obstacle check
  fires) the velocity keeps its sign.
\<close>

theorem C6_velocity_decays:
  assumes "0 < delta"
  shows "\<bar>velocity ((tick level noKeys delta ^^ Suc n) s)\<bar>
           \<le> \<bar>velocity ((tick level noKeys delta ^^ n) s)\<bar> \<and>
         (carRef s \<noteq> None \<longrightarrow>
            \<bar>velocity ((tick level noKeys delta ^^ n) s)\<bar>
              \<le> max 0 (\<bar>velocity s\<bar> - 8 * delta * real n)) \<and>
         (bumpsRef ((tick level noKeys delta ^^ Suc n) s) = bumpsRef ((tick level noKeys delta ^^ n) s) \<longrightarrow>
            0 \<le> velocity ((tick level noKeys delta ^^ Suc n) s)
                  * velocity ((tick level noKeys delta ^^ n) s))"
proof -
  have d: "0 \<le> delta" using assms by simp
  show ?thesis
    using tick_noKeys_le[OF d, of level "(tick level noKeys delta ^^ n) s"]
      funpow_tick_decay[OF d, where s = s and level = level and n = n]
      tick_noKeys_sign[OF d, of level "(tick level noKeys delta ^^ n) s"]
    by simp
qed

lemma tick_free_run:
  "tick level1 noKeys (1 / 10) (carAt (vec (- 12) (2 / 5) 14) pi 20) =
     (advanceClock (1 / 10) (carAt (vec (- 12) (2 / 5) 14) pi 20))
       \<lparr>carRef := Some \<lparr>position = vec (- 12) (2 / 5) (302 / 25), rotationY = pi\<rparr>,
        velocity := 96 / 5, bumpsRef := 0\<rparr>"
  by (simp add: tick_Some[OF carAt_fields(1)] beforeSpeedCheck_def level1_free_run arrivedNow_def
      level1_start_not_inGoal)

text \<open>One free tick of level 1 from the start pose at velocity 20: 19.2 is left, no bump.\<close>

theorem C6_velocity_decays_witness:
  "velocity (tick level1 noKeys (1 / 10) (carAt (vec (- 12) (2 / 5) 14) pi 20)) = 96 / 5 \<and>
   bumpsRef (tick level1 noKeys (1 / 10) (carAt (vec (- 12) (2 / 5) 14) pi 20)) = 0 \<and>
   0 \<le> velocity (tick level1 noKeys (1 / 10) (carAt (vec (- 12) (2 / 5) 14) pi 20)) * 20"
  using C6_velocity_decays[where delta = "1 / 10" and level = level1 and n = 0
      and s = "carAt (vec (- 12) (2 / 5) 14) pi 20"]
  by (simp add: tick_free_run)

text \<open>
  Claim C6 as stated fails: a collision can reverse the velocity. At the start pose of level 1
  (heading \<open>\<pi>\<close>, the wall half a unit behind) a car reversing at 10 with no intent held
  is damped to -9.2, leaves the boundary volume, is put back, and ends the tick at
  +2.76 with one bump.
\<close>

theorem C6_sign_counterexample:
  "velocity (carAt (vec (- 12) (2 / 5) 14) pi (- 10)) = - 10 \<and>
   velocity (tick level1 noKeys (1 / 10) (carAt (vec (- 12) (2 / 5) 14) pi (- 10))) = 69 / 25 \<and>
   bumpsRef (tick level1 noKeys (1 / 10) (carAt (vec (- 12) (2 / 5) 14) pi (- 10))) = 1"
  by (simp add: tick_Some[OF carAt_fields(1)] level1_reverse_into_wall arrivedNow_def
      level1_start_not_inGoal)

section \<open>Arrival\<close>

lemma isNormalized_atan2: "isNormalized d (atan2 (sin d) (cos d))"
  using atan2_sin_cos[of d] atan2_normalises[of d] by (simp add: isNormalized_def)

lemma isNormalized_unique:
  assumes "isNormalized d a" "isNormalized d b"
  shows "a = b"
proof -
  obtain n :: int where n: "a = d + 2 * pi * of_int n" using assms(1) by (auto simp: isNormalized_def)
  obtain m :: int where m: "b = d + 2 * pi * of_int m" using assms(2) by (auto simp: isNormalized_def)
  have ra: "- pi < a" "a \<le> pi" and rb: "- pi < b" "b \<le> pi"
    using assms by (auto simp: isNormalized_def)
  have e: "a - b = 2 * pi * of_int (n - m)" using n m by (simp add: algebra_simps)
  have "a - b < 2 * pi" "- (2 * pi) < a - b" using ra rb by linarith+
  then have l: "2 * pi * of_int (n - m) < 2 * pi * 1" "2 * pi * (- 1) < 2 * pi * of_int (n - m)"
    using e by simp_all
  have p2: "0 < 2 * pi" by simp
  have "real_of_int (n - m) < 1"
    using l(1) by (simp only: mult_less_cancel_left_pos[OF p2])
  moreover have "- 1 < real_of_int (n - m)"
    using l(2) by (simp only: mult_less_cancel_left_pos[OF p2])
  ultimately have "n - m = 0" by linarith
  then show ?thesis using e by simp
qed

lemma arrived_no_crash:
  "success (useFrame level k delta s) \<noteq> None \<Longrightarrow> \<not> crash (useFrame level k delta s)"
  by (cases "carRef s") (auto simp: useFrame_None useFrame_Some overSpeed_def split: if_splits)

text \<open>
  Claim C2. In a tick with the car mounted, \<^verbatim>\<open>onSuccess\<close> is called exactly when three
  things hold of the car as the collision checks leave it: its position is inside the goal
  volume, the magnitude of its velocity is below 1.2, and the magnitude of the one angle \<open>a\<close>
  in \<open>(-\<pi>, \<pi>]\<close> that differs from heading minus goal heading by whole turns is below
  0.3. Hence two of the three without the third never signal arrival. When arrival is
  signalled the velocity left by the tick is 0, the car keeps the position and the heading
  it had when the collision checks ended, and \<^verbatim>\<open>onCrash\<close> is not called.
\<close>

theorem C2_arrival:
  assumes "carRef s = Some c"
  shows "\<exists>a. isNormalized (rotationY (car (afterCollisions level k delta (advanceClock delta s) c))
                  - goalRotation level) a \<and>
           (\<forall>b. isNormalized (rotationY (car (afterCollisions level k delta (advanceClock delta s) c))
                  - goalRotation level) b \<longrightarrow> b = a) \<and>
           (success (useFrame level k delta s) \<noteq> None) =
             (inGoal level (car (afterCollisions level k delta (advanceClock delta s) c)) \<and>
              \<bar>vel (afterCollisions level k delta (advanceClock delta s) c)\<bar> < 12 / 10 \<and>
              \<bar>a\<bar> < 3 / 10) \<and>
           (success (useFrame level k delta s) \<noteq> None \<longrightarrow>
              velocity (state (useFrame level k delta s)) = 0 \<and>
              carRef (state (useFrame level k delta s))
                = Some (car (afterCollisions level k delta (advanceClock delta s) c)) \<and>
              \<not> crash (useFrame level k delta s))"
proof -
  let ?m = "afterCollisions level k delta (advanceClock delta s) c"
  let ?a = "atan2 (sin (rotationY (car ?m) - goalRotation level))
                  (cos (rotationY (car ?m) - goalRotation level))"
  have n: "isNormalized (rotationY (car ?m) - goalRotation level) ?a"
    by (rule isNormalized_atan2)
  have u: "\<forall>b. isNormalized (rotationY (car ?m) - goalRotation level) b \<longrightarrow> b = ?a"
    using isNormalized_unique[OF _ n] by blast
  have f: "facingRequirement level (car ?m) = \<bar>?a\<bar>" by (simp add: facingRequirement_def)
  have s: "(success (useFrame level k delta s) \<noteq> None) = arrivedNow level ?m"
    using assms by (simp add: useFrame_Some)
  have e: "(success (useFrame level k delta s) \<noteq> None) =
             (inGoal level (car ?m) \<and> \<bar>vel ?m\<bar> < 12 / 10 \<and> \<bar>?a\<bar> < 3 / 10)"
    unfolding s by (simp add: arrivedNow_def f)
  have z: "success (useFrame level k delta s) \<noteq> None \<longrightarrow>
              velocity (state (useFrame level k delta s)) = 0 \<and>
              carRef (state (useFrame level k delta s)) = Some (car ?m) \<and>
              \<not> crash (useFrame level k delta s)"
    using assms by (auto simp: useFrame_Some overSpeed_def split: if_splits)
  from n u e z show ?thesis by blast
qed

lemma level1_parked:
  assumes "velocity s = 0"
  shows "afterCollisions level1 noKeys (1 / 60) s \<lparr>position = vec 12 (2 / 5) (- 10), rotationY = 0\<rparr> =
         \<lparr>car = \<lparr>position = vec 12 (2 / 5) (- 10), rotationY = 0\<rparr>, vel = 0, bumps = bumpsRef s\<rparr>"
  using assms
  by (simp add: noKeys_def level1_def velocity_defs motion_defs geometry_defs Let_def)

lemma level1_parked_arrived:
  "arrivedNow level1 \<lparr>car = \<lparr>position = vec 12 (2 / 5) (- 10), rotationY = 0\<rparr>, vel = 0, bumps = b\<rparr>"
  by (simp add: arrivedNow_def inGoal_def facingRequirement_def atan2_def level1_def geometry_defs)

lemma level1_parked_success:
  "success (useFrame level1 noKeys (1 / 60) (carAt (vec 12 (2 / 5) (- 10)) 0 0)) = Some (1 / 60, 0)"
  by (simp add: useFrame_Some[OF carAt_fields(1)] level1_parked level1_parked_arrived)

text \<open>
  A car at rest at the centre of the goal of level 1, facing the goal heading: the tick
  signals arrival with the elapsed time and no bump, and leaves the car where it is.
\<close>

theorem C2_arrival_witness:
  "success (useFrame level1 noKeys (1 / 60) (carAt (vec 12 (2 / 5) (- 10)) 0 0)) = Some (1 / 60, 0) \<and>
   velocity (state (useFrame level1 noKeys (1 / 60) (carAt (vec 12 (2 / 5) (- 10)) 0 0))) = 0 \<and>
   carRef (state (useFrame level1 noKeys (1 / 60) (carAt (vec 12 (2 / 5) (- 10)) 0 0)))
     = Some \<lparr>position = vec 12 (2 / 5) (- 10), rotationY = 0\<rparr>"
proof -
  have s: "success (useFrame level1 noKeys (1 / 60) (carAt (vec 12 (2 / 5) (- 10)) 0 0)) \<noteq> None"
    by (simp add: level1_parked_success)
  from C2_arrival[OF carAt_fields(1), where level = level1 and k = noKeys and delta = "1 / 60"] s
  have "velocity (state (useFrame level1 noKeys (1 / 60) (carAt (vec 12 (2 / 5) (- 10)) 0 0))) = 0 \<and>
        carRef (state (useFrame level1 noKeys (1 / 60) (carAt (vec 12 (2 / 5) (- 10)) 0 0)))
          = Some (car (afterCollisions level1 noKeys (1 / 60)
              (advanceClock (1 / 60) (carAt (vec 12 (2 / 5) (- 10)) 0 0))
              \<lparr>position = vec 12 (2 / 5) (- 10), rotationY = 0\<rparr>))"
    by blast
  then show ?thesis by (simp add: level1_parked_success level1_parked)
qed

section \<open>Arrival while the progression is not playing\<close>

text \<open>
  Claim C10. When the progression state is not \<open>Playing\<close>, \<^verbatim>\<open>handleSuccess\<close> returns the
  controller as it is: the progression state and both totals are unchanged. A frame whose
  tick signals arrival therefore leaves such a controller unchanged.
\<close>

theorem C10_arrived_ignored:
  assumes "\<not> isPlaying (gameState c)"
  shows "handleSuccess e b c = c \<and>
         (success (useFrame level k delta s) \<noteq> None \<longrightarrow>
            frame level k delta (c, s) = (c, state (useFrame level k delta s)))"
proof -
  have h: "handleSuccess e' b' c = c" for e' b'
    using assms by (cases "gameState c") (simp_all add: handleSuccess_def isPlaying_def)
  show ?thesis
    using h arrived_no_crash[of level k delta s]
    by (auto simp: frame_def Let_def)
qed

text \<open>
  A second arrival on level 1, delivered when the first one has already moved the
  progression to \<open>Success\<close>.
\<close>

theorem C10_arrived_ignored_witness:
  "handleSuccess 5 0 \<lparr>gameState = Success 0 5 0, resetSignal = 1, totalTime = 5, totalBumps = 0\<rparr>
     = \<lparr>gameState = Success 0 5 0, resetSignal = 1, totalTime = 5, totalBumps = 0\<rparr> \<and>
   fst (frame level1 noKeys (1 / 60)
     (\<lparr>gameState = Success 0 5 0, resetSignal = 1, totalTime = 5, totalBumps = 0\<rparr>,
      carAt (vec 12 (2 / 5) (- 10)) 0 0))
     = \<lparr>gameState = Success 0 5 0, resetSignal = 1, totalTime = 5, totalBumps = 0\<rparr>"
  using C10_arrived_ignored[where c = "\<lparr>gameState = Success 0 5 0, resetSignal = 1, totalTime = 5, totalBumps = 0\<rparr>"
      and e = 5 and b = 0 and level = level1 and k = noKeys and delta = "1 / 60"
      and s = "carAt (vec 12 (2 / 5) (- 10)) 0 0"]
  by (simp add: isPlaying_def level1_parked_success)

section \<open>Driving into an obstacle\<close>

lemma damped_from_20:
  "dampedVelocity k (1 / 10) 20 = 96 / 5 \<or> dampedVelocity k (1 / 10) 20 = 111 / 5 \<or>
   dampedVelocity k (1 / 10) 20 = 10 \<or> dampedVelocity k (1 / 10) 20 = 16 \<or>
   dampedVelocity k (1 / 10) 20 = 187 / 10"
  by (cases "forward k"; cases "backward k"; cases "brake k") (simp_all add: velocity_defs)

lemma damped_from_20_noKeys:
  "\<not> forward k \<Longrightarrow> \<not> backward k \<Longrightarrow> \<not> brake k \<Longrightarrow> dampedVelocity k (1 / 10) 20 = 96 / 5"
  by (simp add: velocity_defs)

lemma obstacle_hit_only:
  assumes "\<not> outOfBounds level (moveCar k delta (dampedVelocity k delta (velocity s)) c)"
    and "collided level (moveCar k delta (dampedVelocity k delta (velocity s)) c)"
  shows "afterCollisions level k delta s c =
           \<lparr>car = (moveCar k delta (dampedVelocity k delta (velocity s)) c)\<lparr>position := position c\<rparr>,
            vel = dampedVelocity k delta (velocity s) * (- (4 / 10)),
            bumps = bumpsRef s + 1\<rparr>"
  using assms
  by (simp add: afterCollisions_def Let_def resolveBounds_def resolveObstacles_def translated_def)

text \<open>
  Claim C5, as amended. A tick of a tenth of a second is entered at velocity 20; the
  translated car stays inside the boundary volume and its box meets an obstacle volume.
  Then the velocity left is -0.4 times the velocity that acceleration, braking, clamping
  and damping of this same tick have made of 20: with no throttle or brake intent held that
  is (20 - 0.8) * -0.4 = -7.68, and for no keyboard state is it -8. The car is put back at
  its position before the tick, the bump counter grows by exactly one, and neither arrival
  nor a crash is signalled.
\<close>

theorem C5_obstacle_hit:
  assumes "carRef s = Some c" and "velocity s = 20"
    and "\<not> outOfBounds level (moveCar k (1 / 10) (dampedVelocity k (1 / 10) 20) c)"
    and "collided level (moveCar k (1 / 10) (dampedVelocity k (1 / 10) 20) c)"
  shows "velocity (state (useFrame level k (1 / 10) s)) = - (4 / 10) * dampedVelocity k (1 / 10) 20 \<and>
         (\<not> forward k \<and> \<not> backward k \<and> \<not> brake k \<longrightarrow>
            velocity (state (useFrame level k (1 / 10) s)) = - (192 / 25)) \<and>
         velocity (state (useFrame level k (1 / 10) s)) \<noteq> - 8 \<and>
         (\<exists>g. carRef (state (useFrame level k (1 / 10) s)) = Some g \<and> position g = position c) \<and>
         bumpsRef (state (useFrame level k (1 / 10) s)) = bumpsRef s + 1 \<and>
         success (useFrame level k (1 / 10) s) = None \<and>
         \<not> crash (useFrame level k (1 / 10) s)"
proof -
  let ?d = "dampedVelocity k (1 / 10) 20"
  let ?s1 = "advanceClock (1 / 10) s"
  have m: "afterCollisions level k (1 / 10) ?s1 c =
           \<lparr>car = (moveCar k (1 / 10) ?d c)\<lparr>position := position c\<rparr>,
            vel = ?d * (- (4 / 10)), bumps = bumpsRef s + 1\<rparr>"
    using obstacle_hit_only[of level k "1 / 10" ?s1 c] assms(2,3,4) by simp
  have na: "\<not> arrivedNow level (afterCollisions level k (1 / 10) ?s1 c)"
    unfolding m using damped_from_20[of k] by (auto simp: arrivedNow_def)
  have no: "\<not> overSpeed (?d * (- (4 / 10)))"
    using damped_from_20[of k] by (auto simp: overSpeed_def)
  have u: "useFrame level k (1 / 10) s =
      \<lparr>state = beforeSpeedCheck level k (1 / 10) ?s1 c, success = None, crash = False\<rparr>"
    using na no by (simp add: useFrame_Some[OF assms(1)] m)
  have v: "velocity (state (useFrame level k (1 / 10) s)) = - (4 / 10) * ?d"
    unfolding u using na by (simp add: m)
  have n8: "- (4 / 10) * ?d \<noteq> - 8" using damped_from_20[of k] by auto
  have nk: "\<not> forward k \<and> \<not> backward k \<and> \<not> brake k \<longrightarrow> - (4 / 10) * ?d = - (192 / 25)"
    using damped_from_20_noKeys[of k] by auto
  have g: "carRef (state (useFrame level k (1 / 10) s))
             = Some ((moveCar k (1 / 10) ?d c)\<lparr>position := position c\<rparr>)"
    unfolding u by (simp add: m)
  have b: "bumpsRef (state (useFrame level k (1 / 10) s)) = bumpsRef s + 1"
    unfolding u by (simp add: m)
  show ?thesis
    using v n8 nk g b by (simp add: u)
qed

lemma level1_into_obstacle:
  "moveCar noKeys (1 / 10) (96 / 5) \<lparr>position = vec (- 4) (2 / 5) 0, rotationY = pi / 2\<rparr> =
     \<lparr>position = vec (- (52 / 25)) (2 / 5) 0, rotationY = pi / 2\<rparr>"
  by (simp add: noKeys_def motion_defs vec_def)

lemma level1_obstacle_spans:
  "\<not> outOfBounds level1 \<lparr>position = vec (- (52 / 25)) (2 / 5) 0, rotationY = pi / 2\<rparr> \<and>
   collided level1 \<lparr>position = vec (- (52 / 25)) (2 / 5) 0, rotationY = pi / 2\<rparr> \<and>
   \<not> collided level1 \<lparr>position = vec (- 4) (2 / 5) 0, rotationY = pi / 2\<rparr>"
  by (simp add: outOfBounds_def collided_def carBox_def level1_def geometry_defs)

text \<open>
  Level 1: the car at (-4, 0) heading along x at velocity 20, no intent held, is carried to
  x = -2.08, where its box meets the obstacle at the centre of the lot.
\<close>

theorem C5_obstacle_hit_witness:
  "velocity (state (useFrame level1 noKeys (1 / 10) (carAt (vec (- 4) (2 / 5) 0) (pi / 2) 20)))
     = - (192 / 25) \<and>
   bumpsRef (state (useFrame level1 noKeys (1 / 10) (carAt (vec (- 4) (2 / 5) 0) (pi / 2) 20))) = 1 \<and>
   (\<exists>g. carRef (state (useFrame level1 noKeys (1 / 10) (carAt (vec (- 4) (2 / 5) 0) (pi / 2) 20)))
          = Some g \<and> position g = vec (- 4) (2 / 5) 0)"
proof -
  have d: "dampedVelocity noKeys (1 / 10) 20 = 96 / 5"
    by (simp add: damped_from_20_noKeys noKeys_def)
  have k: "\<not> forward noKeys \<and> \<not> backward noKeys \<and> \<not> brake noKeys" by (simp add: noKeys_def)
  show ?thesis
    using C5_obstacle_hit[where s = "carAt (vec (- 4) (2 / 5) 0) (pi / 2) 20"
        and c = "\<lparr>position = vec (- 4) (2 / 5) 0, rotationY = pi / 2\<rparr>"
        and level = level1 and k = noKeys] k level1_obstacle_spans
    by (simp add: d level1_into_obstacle)
qed

text \<open>
  Claim C5 as stated fails. In the same tick the car enters at velocity 20, is clear of the
  obstacle before the move and meets it after the move, and the velocity left is -7.68,
  not -8: the damping of the tick has run before the collision is resolved.
\<close>

theorem C5_minus_eight_counterexample:
  "velocity (carAt (vec (- 4) (2 / 5) 0) (pi / 2) 20) = 20 \<and>
   \<not> collided level1 \<lparr>position = vec (- 4) (2 / 5) 0, rotationY = pi / 2\<rparr> \<and>
   collided level1
     (moveCar noKeys (1 / 10) (dampedVelocity noKeys (1 / 10) 20)
        \<lparr>position = vec (- 4) (2 / 5) 0, rotationY = pi / 2\<rparr>) \<and>
   velocity (state (useFrame level1 noKeys (1 / 10) (carAt (vec (- 4) (2 / 5) 0) (pi / 2) 20)))
     = - (192 / 25) \<and>
   velocity (state (useFrame level1 noKeys (1 / 10) (carAt (vec (- 4) (2 / 5) 0) (pi / 2) 20)))
     \<noteq> - 8"
proof -
  have d: "dampedVelocity noKeys (1 / 10) 20 = 96 / 5"
    by (simp add: damped_from_20_noKeys noKeys_def)
  have m: "afterCollisions level1 noKeys (1 / 10)
             (advanceClock (1 / 10) (carAt (vec (- 4) (2 / 5) 0) (pi / 2) 20))
             \<lparr>position = vec (- 4) (2 / 5) 0, rotationY = pi / 2\<rparr> =
           \<lparr>car = \<lparr>position = vec (- 4) (2 / 5) 0, rotationY = pi / 2\<rparr>,
            vel = - (192 / 25), bumps = 1\<rparr>"
    using level1_obstacle_spans
    by (simp add: obstacle_hit_only d level1_into_obstacle)
  show ?thesis
    using level1_obstacle_spans
    by (simp add: useFrame_Some[OF carAt_fields(1)] d level1_into_obstacle m arrivedNow_def
        overSpeed_def)
qed

section \<open>The over-speed threshold\<close>

lemma level1_backward_clock_over:
  assumes "velocity s = - 10"
  shows "afterCollisions level1 noKeys (- (106667 / 8000)) s
           \<lparr>position = vec (- 12) (2 / 5) 14, rotationY = pi\<rparr> =
         \<lparr>car = \<lparr>position = vec (- 12) (2 / 5) 14, rotationY = pi\<rparr>,
          vel = 350001 / 10000, bumps = bumpsRef s + 1\<rparr>"
  using assms
  by (simp add: noKeys_def level1_def velocity_defs motion_defs geometry_defs Let_def)

lemma level1_backward_clock_exact:
  assumes "velocity s = - 10"
  shows "afterCollisions level1 noKeys (- (40 / 3)) s
           \<lparr>position = vec (- 12) (2 / 5) 14, rotationY = pi\<rparr> =
         \<lparr>car = \<lparr>position = vec (- 12) (2 / 5) 14, rotationY = pi\<rparr>,
          vel = 35, bumps = bumpsRef s + 1\<rparr>"
  using assms
  by (simp add: noKeys_def level1_def velocity_defs motion_defs geometry_defs Let_def)

lemma crash_iff:
  "carRef s = Some c \<Longrightarrow>
   crash (useFrame level k delta s)
     = (35 < \<bar>velocity (beforeSpeedCheck level k delta (advanceClock delta s) c)\<bar>)"
  by (simp add: useFrame_Some overSpeed_def)

text \<open>
  Claim C8, as amended. The over-speed check is strict: 35 is not over speed and 35.0001
  is, and a tick with the car mounted calls \<^verbatim>\<open>onCrash\<close> exactly when the magnitude of the
  velocity left by the goal check exceeds 35. No tick with \<open>delta \<ge> 0\<close> calls it. A
  velocity of 35 or more reaches the check only when the clock runs backwards: from the
  start pose of level 1 at velocity -10 with no intent held, \<open>delta = -40/3\<close> leaves exactly
  35 and no crash, and \<open>delta = -106667/8000\<close> leaves 35.0001 and a crash.
\<close>

theorem C8_strict_threshold:
  "\<not> overSpeed 35 \<and> overSpeed (350001 / 10000) \<and>
   (carRef s = Some c \<longrightarrow>
      crash (useFrame level k delta s)
        = (35 < \<bar>velocity (beforeSpeedCheck level k delta (advanceClock delta s) c)\<bar>)) \<and>
   (0 \<le> delta \<longrightarrow> \<not> crash (useFrame level k delta s)) \<and>
   velocity (beforeSpeedCheck level1 noKeys (- (40 / 3))
       (advanceClock (- (40 / 3)) (carAt (vec (- 12) (2 / 5) 14) pi (- 10)))
       \<lparr>position = vec (- 12) (2 / 5) 14, rotationY = pi\<rparr>) = 35 \<and>
   \<not> crash (useFrame level1 noKeys (- (40 / 3)) (carAt (vec (- 12) (2 / 5) 14) pi (- 10))) \<and>
   velocity (beforeSpeedCheck level1 noKeys (- (106667 / 8000))
       (advanceClock (- (106667 / 8000)) (carAt (vec (- 12) (2 / 5) 14) pi (- 10)))
       \<lparr>position = vec (- 12) (2 / 5) 14, rotationY = pi\<rparr>) = 350001 / 10000 \<and>
   crash (useFrame level1 noKeys (- (106667 / 8000)) (carAt (vec (- 12) (2 / 5) 14) pi (- 10)))"
proof -
  have a: "\<not> overSpeed 35 \<and> overSpeed (350001 / 10000)" by (simp add: overSpeed_def)
  have b: "carRef s = Some c \<longrightarrow>
      crash (useFrame level k delta s)
        = (35 < \<bar>velocity (beforeSpeedCheck level k delta (advanceClock delta s) c)\<bar>)"
    using crash_iff by blast
  have c: "0 \<le> delta \<longrightarrow> \<not> crash (useFrame level k delta s)"
    using no_crash by blast
  have d: "velocity (beforeSpeedCheck level1 noKeys (- (40 / 3))
       (advanceClock (- (40 / 3)) (carAt (vec (- 12) (2 / 5) 14) pi (- 10)))
       \<lparr>position = vec (- 12) (2 / 5) 14, rotationY = pi\<rparr>) = 35"
    by (simp add: level1_backward_clock_exact arrivedNow_def level1_start_not_inGoal)
  have e: "velocity (beforeSpeedCheck level1 noKeys (- (106667 / 8000))
       (advanceClock (- (106667 / 8000)) (carAt (vec (- 12) (2 / 5) 14) pi (- 10)))
       \<lparr>position = vec (- 12) (2 / 5) 14, rotationY = pi\<rparr>) = 350001 / 10000"
    by (simp add: level1_backward_clock_over arrivedNow_def level1_start_not_inGoal)
  have f: "\<not> crash (useFrame level1 noKeys (- (40 / 3)) (carAt (vec (- 12) (2 / 5) 14) pi (- 10)))"
    unfolding crash_iff[OF carAt_fields(1)] d by simp
  have g: "crash (useFrame level1 noKeys (- (106667 / 8000)) (carAt (vec (- 12) (2 / 5) 14) pi (- 10)))"
    unfolding crash_iff[OF carAt_fields(1)] e by simp
  from a b c d e f g show ?thesis by blast
qed

text \<open>A forward tick of level 1 from the start pose at velocity 20: mounted, no crash.\<close>

theorem C8_strict_threshold_witness:
  "crash (useFrame level1 noKeys (1 / 10) (carAt (vec (- 12) (2 / 5) 14) pi 20)) = False \<and>
   \<bar>velocity (beforeSpeedCheck level1 noKeys (1 / 10)
       (advanceClock (1 / 10) (carAt (vec (- 12) (2 / 5) 14) pi 20))
       \<lparr>position = vec (- 12) (2 / 5) 14, rotationY = pi\<rparr>)\<bar> \<le> 35"
proof -
  have r: "carRef (carAt (vec (- 12) (2 / 5) 14) pi 20)
             = Some \<lparr>position = vec (- 12) (2 / 5) 14, rotationY = pi\<rparr>"
    by simp
  have d: "(0::real) \<le> 1 / 10" by simp
  from C8_strict_threshold[where s = "carAt (vec (- 12) (2 / 5) 14) pi 20"
      and c = "\<lparr>position = vec (- 12) (2 / 5) 14, rotationY = pi\<rparr>"
      and level = level1 and k = noKeys and delta = "1 / 10"] r d
  have "crash (useFrame level1 noKeys (1 / 10) (carAt (vec (- 12) (2 / 5) 14) pi 20))
          = (35 < \<bar>velocity (beforeSpeedCheck level1 noKeys (1 / 10)
               (advanceClock (1 / 10) (carAt (vec (- 12) (2 / 5) 14) pi 20))
               \<lparr>position = vec (- 12) (2 / 5) 14, rotationY = pi\<rparr>)\<bar>)"
    and "\<not> crash (useFrame level1 noKeys (1 / 10) (carAt (vec (- 12) (2 / 5) 14) pi 20))"
    by blast+
  then show ?thesis by auto
qed

text \<open>
  Claim C8 as stated fails where it says that some reachable tick signals a crash above 35:
  the frame clock never runs backwards, and no tick with \<open>delta \<ge> 0\<close> signals a crash.
\<close>

theorem C8_unreachable_counterexample:
  "\<not> (\<exists>level k delta s. 0 \<le> delta \<and> crash (useFrame level k delta s))"
  using no_crash by blast

section \<open>What a crash resets\<close>

lemma crash_mounted:
  assumes "crash (useFrame level k delta s)"
  obtains c where "carRef s = Some c"
    and "overSpeed (velocity (beforeSpeedCheck level k delta (advanceClock delta s) c))"
    and "success (useFrame level k delta s) = None"
proof (cases "carRef s")
  case None
  then show ?thesis using assms by (simp add: useFrame_None)
next
  case (Some c)
  have o: "overSpeed (velocity (beforeSpeedCheck level k delta (advanceClock delta s) c))"
    using assms Some by (simp add: useFrame_Some)
  then have "\<not> arrivedNow level (afterCollisions level k delta (advanceClock delta s) c)"
    by (auto simp: overSpeed_def split: if_splits)
  then have "success (useFrame level k delta s) = None"
    using Some by (simp add: useFrame_Some)
  with Some o show ?thesis using that by blast
qed

text \<open>
  A frame whose tick signals a crash is the crash branch run on the state that the goal
  check has left.
\<close>

lemma frame_crash:
  assumes "crash (useFrame level k delta s)" and "carRef s = Some g"
  shows "frame level k delta (c, s) =
           crashBranch level (c, beforeSpeedCheck level k delta (advanceClock delta s) g)"
proof -
  obtain h where h: "carRef s = Some h"
    and o: "overSpeed (velocity (beforeSpeedCheck level k delta (advanceClock delta s) h))"
    and n: "success (useFrame level k delta s) = None"
    using crash_mounted[OF assms(1)] by blast
  have e: "h = g" using h assms(2) by simp
  show ?thesis
    using assms(1) n o unfolding e
    by (simp add: frame_def crashBranch_def Let_def useFrame_Some[OF assms(2)])
qed




section \<open>Returning to the menu\<close>

text \<open>
  Claim C4 does not hold of the button. From \<open>Complete\<close> with 90 seconds and 4 bumps in
  the totals, the button "Run It Back" goes to \<open>Intro\<close> and leaves both totals as they
  are, while the Enter and Space keys go to \<open>Intro\<close> and set both totals to 0.
\<close>

theorem C4_run_it_back_keeps_totals:
  "clickRunItBack \<lparr>gameState = Complete 90 4, resetSignal = 3, totalTime = 90, totalBumps = 4\<rparr>
     = \<lparr>gameState = Intro, resetSignal = 3, totalTime = 90, totalBumps = 4\<rparr> \<and>
   handleKeyPress ''Enter'' 0
       \<lparr>gameState = Complete 90 4, resetSignal = 3, totalTime = 90, totalBumps = 4\<rparr>
     = \<lparr>gameState = Intro, resetSignal = 3, totalTime = 0, totalBumps = 0\<rparr> \<and>
   handleKeyPress ''Space'' 0
       \<lparr>gameState = Complete 90 4, resetSignal = 3, totalTime = 90, totalBumps = 4\<rparr>
     = \<lparr>gameState = Intro, resetSignal = 3, totalTime = 0, totalBumps = 0\<rparr>"
  by (simp add: clickRunItBack_def handleKeyPress_def Let_def)

end
